theory Spec2Isabelle
  imports Complex_Main
begin

section \<open>Chapter 11 (Rotation): rolling paper, unrolling paper, yo-yo\<close>

text \<open>
  The notebook \<^verbatim>\<open>code/chap11.ipynb\<close> defines, for each of three scenarios, a function
  \<^verbatim>\<open>make_system\<close> from a \<^verbatim>\<open>Condition\<close> to a \<^verbatim>\<open>System\<close> and a slope function for the ODE
  solver. The notebook redefines \<^verbatim>\<open>make_system\<close> and \<^verbatim>\<open>slope_func\<close> in each part; here the
  three versions carry the scenario as a suffix.

  Quantities are modelled by their magnitudes in SI units, as real numbers: Python's
  floats are idealised as exact reals, and the unit tags (metre, second, kilogram, newton,
  and the dimensionless radian) are dropped. A division whose divisor is zero has no real
  value; it is an error of the model, never HOL's \<open>x / 0 = 0\<close>. Where the question is
  whether two computations return the very same float, the idealisation would decide it
  by itself; there the rounding of doubles is modelled too.
\<close>

subsection \<open>Errors\<close>

text \<open>
  \<open>ZeroDivisionError\<close> is what Python raises when a float (or a quantity with a float
  magnitude) is divided by zero. \<open>NonFinite\<close> stands for a result that numpy computes
  without raising but that is no real number: the \<^verbatim>\<open>nan\<close> of a square root of a negative
  number, the \<^verbatim>\<open>inf\<close> or \<^verbatim>\<open>nan\<close> of a quotient by zero.
\<close>

datatype error = ZeroDivisionError | NonFinite

definition py_div :: "real \<Rightarrow> real \<Rightarrow> error + real" where
  "py_div a b = (if b = 0 then Inl ZeroDivisionError else Inr (a / b))"

subsection \<open>Conditions, states and systems\<close>

text \<open>
  A \<^verbatim>\<open>Condition\<close> is a bag of named parameters. The Roll scenario has \<^verbatim>\<open>Rmin\<close>, \<^verbatim>\<open>Rmax\<close>, \<^verbatim>\<open>L\<close>
  and \<^verbatim>\<open>duration\<close>; the other two scenarios extend it.
\<close>

record condition =
  Rmin :: real
  Rmax :: real
  L :: real
  duration :: real

record unroll_condition = condition +
  Mcore :: real
  Mroll :: real
  tension :: real

record yoyo_condition = condition +
  Rout :: real
  mass :: real
  g :: real

text \<open>
  A \<^verbatim>\<open>State\<close> is unpacked positionally by the slope functions, so it is a tuple in the
  order of its construction: \<open>(theta, y, r)\<close> for Roll, \<open>(theta, omega, y)\<close> for Unroll,
  \<open>(theta, omega, y, v)\<close> for the yo-yo.
\<close>

type_synonym roll_state = "real \<times> real \<times> real"
type_synonym unroll_state = "real \<times> real \<times> real"
type_synonym yoyo_state = "real \<times> real \<times> real \<times> real"

text \<open>
  A \<^verbatim>\<open>System\<close> holds \<^verbatim>\<open>init\<close>, \<^verbatim>\<open>k\<close> and \<^verbatim>\<open>ts\<close> in every scenario. The field names carry
  the prefix \<open>sys_\<close> because a System repeats names of the Condition.
\<close>

record 'st system =
  sys_init :: 'st
  sys_k :: real
  sys_ts :: "real list"

record 'st unroll_system = "'st system" +
  sys_rho_h :: real
  sys_Rmin :: real
  sys_Rmax :: real
  sys_Mcore :: real
  sys_Mroll :: real

record 'st yoyo_system = "'st system" +
  yo_Rmin :: real
  yo_Rmax :: real
  yo_mass :: real
  yo_I :: real
  yo_g :: real

subsection \<open>The time grid\<close>

text \<open>
  Modelled from the spec: \<^verbatim>\<open>linspace\<close> comes from the \<^verbatim>\<open>modsim\<close> library, which is not part
  of the notebook. The spec describes the grid as \<open>N\<close> evenly spaced points between the
  two ends, both included: point \<open>i\<close> is \<open>start + i * (stop - start) / (N - 1)\<close>.
\<close>

definition linspace :: "real \<Rightarrow> real \<Rightarrow> nat \<Rightarrow> real list" where
  "linspace start stop num =
     map (\<lambda>i. start + real i * ((stop - start) / real (num - 1))) [0..<num]"

subsection \<open>Rolling paper\<close>

text \<open>
  \<^verbatim>\<open>estimate_k\<close>: each local variable of the function is a definition of its own.
  \<^verbatim>\<open>
  Ravg = (Rmax + Rmin) / 2
  Cavg = 2 * pi * Ravg
  revs = L / Cavg
  rads = 2 * pi * revs
  k = (Rmax - Rmin) / rads
  \<close>
\<close>

definition Ravg :: "'a condition_scheme \<Rightarrow> real" where
  "Ravg c = (Rmax c + Rmin c) / 2"

definition Cavg :: "'a condition_scheme \<Rightarrow> real" where
  "Cavg c = 2 * pi * Ravg c"

definition revs :: "'a condition_scheme \<Rightarrow> error + real" where
  "revs c = py_div (L c) (Cavg c)"

definition rads :: "'a condition_scheme \<Rightarrow> error + real" where
  "rads c = (case revs c of Inl e \<Rightarrow> Inl e | Inr rv \<Rightarrow> Inr (2 * pi * rv))"

definition estimate_k :: "'a condition_scheme \<Rightarrow> error + real" where
  "estimate_k c =
     (case rads c of Inl e \<Rightarrow> Inl e | Inr rd \<Rightarrow> py_div (Rmax c - Rmin c) rd)"

definition make_system_roll :: "'a condition_scheme \<Rightarrow> error + roll_state system" where
  "make_system_roll c =
     (case estimate_k c of
        Inl e \<Rightarrow> Inl e
      | Inr kv \<Rightarrow>
          Inr \<lparr>sys_init = (0, 0, Rmin c), sys_k = kv,
               sys_ts = linspace 0 (duration c) 101\<rparr>)"

text \<open>
  The Roll slope function: \<^verbatim>\<open>theta, y, r = state\<close>, then \<^verbatim>\<open>omega = 10\<close>,
  \<^verbatim>\<open>dydt = r * omega\<close>, \<^verbatim>\<open>drdt = k * omega\<close>, and the result \<^verbatim>\<open>omega, dydt, drdt\<close>.
\<close>

definition slope_func_roll :: "roll_state \<Rightarrow> real \<Rightarrow> ('st, 'a) system_scheme \<Rightarrow> roll_state" where
  "slope_func_roll state t sys =
     (case state of (theta, y, r) \<Rightarrow>
        let omega = 10;
            dydt = r * omega;
            drdt = sys_k sys * omega
        in (omega, dydt, drdt))"

subsection \<open>Unrolling paper\<close>

text \<open>
  The closed form of \<open>k\<close>, the line \<^verbatim>\<open>k = (Rmax**2 - Rmin**2) / 2 / L / radian\<close> that the
  Unroll and the yo-yo \<^verbatim>\<open>make_system\<close> share. Dividing by the unit \<^verbatim>\<open>radian\<close> changes the
  unit tag only.
\<close>

definition k_closed_form :: "'a condition_scheme \<Rightarrow> error + real" where
  "k_closed_form c = py_div (((Rmax c)\<^sup>2 - (Rmin c)\<^sup>2) / 2) (L c)"

text \<open>
  \<^verbatim>\<open>
  init = State(theta = 0 * radian, omega = 0 * radian/s, y = L)
  area = pi * (Rmax**2 - Rmin**2)
  rho_h = Mroll / area
  k = (Rmax**2 - Rmin**2) / 2 / L / radian
  ts = linspace(0, duration, 101)
  \<close>
\<close>

definition area :: "'a condition_scheme \<Rightarrow> real" where
  "area c = pi * ((Rmax c)\<^sup>2 - (Rmin c)\<^sup>2)"

definition make_system_unroll ::
    "'a unroll_condition_scheme \<Rightarrow> error + unroll_state unroll_system" where
  "make_system_unroll c =
     (case py_div (Mroll c) (area c) of
        Inl e \<Rightarrow> Inl e
      | Inr rho \<Rightarrow>
          (case k_closed_form c of
             Inl e \<Rightarrow> Inl e
           | Inr kv \<Rightarrow>
               Inr \<lparr>sys_init = (0, 0, L c), sys_k = kv,
                    sys_ts = linspace 0 (duration c) 101,
                    sys_rho_h = rho, sys_Rmin = Rmin c, sys_Rmax = Rmax c,
                    sys_Mcore = Mcore c, sys_Mroll = Mroll c\<rparr>))"

text \<open>
  \<^verbatim>\<open>
  Icore = Mcore * Rmin**2
  Iroll = pi * rho_h / 2 * (r**4 - Rmin**4)
  return Icore + Iroll
  \<close>
\<close>

definition moment_of_inertia :: "real \<Rightarrow> ('st, 'a) unroll_system_scheme \<Rightarrow> real" where
  "moment_of_inertia r sys =
     (let Icore = sys_Mcore sys * (sys_Rmin sys)\<^sup>2;
          Iroll = pi * sys_rho_h sys / 2 * (r ^ 4 - (sys_Rmin sys) ^ 4)
      in Icore + Iroll)"

text \<open>
  The Unroll slope function.
  \<^verbatim>\<open>
  theta, omega, y = state
  r = sqrt(2*k*y + Rmin**2)
  I = moment_of_inertia(r, system)
  tau = r * tension
  alpha = tau / I
  dydt = -r * omega
  return omega, alpha, dydt
  \<close>
  The System that \<^verbatim>\<open>make_system\<close> builds has no field \<^verbatim>\<open>tension\<close>: the function reads the
  global that \<^verbatim>\<open>unpack(condition)\<close> left behind, which is the last argument here. The
  square root and the quotient are numpy operations: outside their domain the result is
  not finite.
\<close>

definition slope_func_unroll ::
    "unroll_state \<Rightarrow> real \<Rightarrow> ('st, 'a) unroll_system_scheme \<Rightarrow> real \<Rightarrow> error + unroll_state" where
  "slope_func_unroll state t sys tension_global =
     (case state of (theta, omega, y) \<Rightarrow>
        let radicand = 2 * sys_k sys * y + (sys_Rmin sys)\<^sup>2 in
        if radicand < 0 then Inl NonFinite
        else
          let r = sqrt radicand;
              I = moment_of_inertia r sys;
              tau = r * tension_global
          in if I = 0 then Inl NonFinite
             else
               let alpha = tau / I;
                   dydt = - r * omega
               in Inr (omega, alpha, dydt))"

subsection \<open>Yo-yo\<close>

text \<open>
  \<^verbatim>\<open>
  init = State(theta = 0 * radian, omega = 0 * radian/s, y = L, v = 0 * m / s)
  I = mass * Rout**2 / 2
  k = (Rmax**2 - Rmin**2) / 2 / L / radian
  ts = linspace(0, duration, 101)
  \<close>
\<close>

definition make_system_yoyo ::
    "'a yoyo_condition_scheme \<Rightarrow> error + yoyo_state yoyo_system" where
  "make_system_yoyo c =
     (let I = mass c * (Rout c)\<^sup>2 / 2 in
      case k_closed_form c of
        Inl e \<Rightarrow> Inl e
      | Inr kv \<Rightarrow>
          Inr \<lparr>sys_init = (0, 0, L c, 0), sys_k = kv,
               sys_ts = linspace 0 (duration c) 101,
               yo_Rmin = Rmin c, yo_Rmax = Rmax c, yo_mass = mass c,
               yo_I = I, yo_g = g c\<rparr>)"




subsection \<open>Double-precision arithmetic\<close>

text \<open>
  Python's floats are IEEE doubles: every arithmetic operation returns the double nearest
  to the exact result, a tie going to the even significand. \<open>fl64\<close> is that rounding, to
  53 significant bits. The exponent is found by doubling or halving until the
  significand lies in \<open>[2^52, 2^53)\<close>; the 2200 steps allowed reach past both ends of the
  double range. Overflow and subnormal numbers are not modelled.
\<close>

definition round_half_even :: "real \<Rightarrow> int" where
  "round_half_even x =
     (let f = \<lfloor>x\<rfloor>; d = x - of_int f
      in if d < 1 / 2 then f else if 1 / 2 < d then f + 1
         else if even f then f else f + 1)"

fun normalise :: "nat \<Rightarrow> real \<Rightarrow> int \<Rightarrow> real \<times> int" where
  "normalise 0 x e = (x, e)"
| "normalise (Suc n) x e =
     (if x < 2 ^ 52 then normalise n (2 * x) (e - 1)
      else if 2 ^ 53 \<le> x then normalise n (x / 2) (e + 1)
      else (x, e))"

definition fl64 :: "real \<Rightarrow> real" where
  "fl64 x =
     (if x = 0 then 0
      else case normalise 2200 \<bar>x\<bar> 0 of
             (m, e) \<Rightarrow> sgn x * of_int (round_half_even m) * 2 powi e)"

text \<open>The double \<^verbatim>\<open>3.141592653589793\<close> that Python and numpy call \<^verbatim>\<open>pi\<close>.\<close>

definition pi64 :: real where
  "pi64 = 884279719003555 / 2 ^ 48"

text \<open>
  \<^verbatim>\<open>estimate_k\<close> and the closed form of \<open>k\<close> once more, operation by operation in the
  order Python evaluates them, with the rounding \<open>rnd\<close> applied to the result of every
  operation and \<open>p\<close> for \<^verbatim>\<open>pi\<close>. With no rounding and the real \<open>pi\<close> they are the
  definitions above; with \<open>fl64\<close> and \<open>pi64\<close> they are what the interpreter computes.
  \<^verbatim>\<open>x**2\<close> is taken as the rounded product \<open>x * x\<close>.
\<close>

definition estimate_k_in ::
    "(real \<Rightarrow> real) \<Rightarrow> real \<Rightarrow> 'a condition_scheme \<Rightarrow> error + real" where
  "estimate_k_in rnd p c =
     (let ravg = rnd (rnd (Rmax c + Rmin c) / 2);
          cavg = rnd (rnd (2 * p) * ravg)
      in if cavg = 0 then Inl ZeroDivisionError
         else
           let rv = rnd (L c / cavg);
               rd = rnd (rnd (2 * p) * rv)
           in if rd = 0 then Inl ZeroDivisionError
              else Inr (rnd (rnd (Rmax c - Rmin c) / rd)))"

definition k_closed_form_in :: "(real \<Rightarrow> real) \<Rightarrow> 'a condition_scheme \<Rightarrow> error + real" where
  "k_closed_form_in rnd c =
     (let half = rnd (rnd (rnd (Rmax c * Rmax c) - rnd (Rmin c * Rmin c)) / 2)
      in if L c = 0 then Inl ZeroDivisionError else Inr (rnd (half / L c)))"

subsection \<open>What a time grid has to satisfy\<close>

text \<open>
  The grid of a run of length \<open>d\<close>: 101 points, the first 0, the last \<open>d\<close>, every step
  the same \<open>d / 100\<close>, and no point before its predecessor.
\<close>

definition time_grid :: "real \<Rightarrow> real list \<Rightarrow> bool" where
  "time_grid d ts \<longleftrightarrow>
     length ts = 101 \<and> hd ts = 0 \<and> last ts = d
     \<and> (\<forall>i<100. ts ! Suc i - ts ! i = d / 100)
     \<and> sorted ts"

section \<open>Properties\<close>

subsection \<open>Helper facts\<close>

lemma rads_value:
  assumes "Cavg c \<noteq> 0"
  shows "rads c = Inr (2 * pi * (L c / (2 * pi * Ravg c)))"
  using assms by (simp add: rads_def revs_def py_div_def Cavg_def)

text \<open>
  \<open>estimate_k\<close> on every input: the two divisions fail exactly when the average radius
  or the length is zero.
\<close>

lemma estimate_k_total:
  "estimate_k c =
     (if Rmax c + Rmin c = 0 \<or> L c = 0 then Inl ZeroDivisionError
      else Inr ((Rmax c - Rmin c) / (2 * pi * (L c / (2 * pi * ((Rmax c + Rmin c) / 2))))))"
  by (simp add: estimate_k_def rads_def revs_def py_div_def Cavg_def Ravg_def)

lemma k_closed_form_value:
  "L c \<noteq> 0 \<Longrightarrow> k_closed_form c = Inr (((Rmax c)\<^sup>2 - (Rmin c)\<^sup>2) / (2 * L c))"
  by (simp add: k_closed_form_def py_div_def)

lemma make_system_unroll_k:
  "make_system_unroll c = Inr s \<Longrightarrow> k_closed_form c = Inr (sys_k s)"
  by (auto simp: make_system_unroll_def split: sum.splits)

lemma make_system_yoyo_k:
  "make_system_yoyo c = Inr s \<Longrightarrow> k_closed_form c = Inr (sys_k s)"
  by (auto simp: make_system_yoyo_def Let_def split: sum.splits)

lemma k_closed_form_same_geometry:
  "Rmin c' = Rmin c \<Longrightarrow> Rmax c' = Rmax c \<Longrightarrow> L c' = L c \<Longrightarrow>
     k_closed_form c' = k_closed_form c"
  by (simp add: k_closed_form_def)

lemma area_pos:
  assumes "0 < Rmin c" and "Rmin c < Rmax c"
  shows "0 < area c"
proof -
  have "(Rmin c)\<^sup>2 < (Rmax c)\<^sup>2"
    using assms by (simp add: power_strict_mono)
  then show ?thesis by (simp add: area_def)
qed

lemma linspace_length: "length (linspace a b n) = n"
  by (simp add: linspace_def)

lemma linspace_nth:
  "i < n \<Longrightarrow> linspace a b n ! i = a + real i * ((b - a) / real (n - 1))"
  by (simp add: linspace_def)

lemma linspace_time_grid:
  assumes "0 \<le> d"
  shows "time_grid d (linspace 0 d 101)"
proof -
  let ?ts = "linspace 0 d 101"
  have len: "length ?ts = 101" by (rule linspace_length)
  have nth: "?ts ! i = real i * (d / 100)" if "i < 101" for i
    using that by (simp add: linspace_nth)
  have ne: "?ts \<noteq> []" using len by auto
  have first: "hd ?ts = 0"
    using ne nth [of 0] by (simp add: hd_conv_nth)
  have final: "last ?ts = d"
    using ne nth [of 100] by (simp add: last_conv_nth len)
  have step: "?ts ! Suc i - ?ts ! i = d / 100" if "i < 100" for i
    using that nth [of i] nth [of "Suc i"] by (simp add: algebra_simps)
  have "?ts ! i \<le> ?ts ! j" if "i \<le> j" and "j < length ?ts" for i j
  proof -
    have "real i * (d / 100) \<le> real j * (d / 100)"
      using that(1) assms by (intro mult_right_mono) simp_all
    then show ?thesis using that len by (simp add: nth)
  qed
  then have "sorted ?ts" by (simp add: sorted_iff_nth_mono)
  with len first final step show ?thesis by (simp add: time_grid_def)
qed

lemma make_system_roll_grid:
  assumes "0 < Rmin c" and "Rmin c < Rmax c" and "0 < L c" and "0 < duration c"
  shows "\<exists>s. make_system_roll c = Inr s \<and> fst (sys_init s) = 0
            \<and> time_grid (duration c) (sys_ts s)"
  using assms by (simp add: make_system_roll_def estimate_k_total linspace_time_grid)

lemma make_system_unroll_grid:
  assumes "0 < Rmin c" and "Rmin c < Rmax c" and "0 < L c" and "0 < duration c"
  shows "\<exists>s. make_system_unroll c = Inr s \<and> fst (sys_init s) = 0
            \<and> time_grid (duration c) (sys_ts s)"
proof -
  have "area c \<noteq> 0" using area_pos [OF assms(1,2)] by simp
  then show ?thesis
    using assms(3,4)
    by (simp add: make_system_unroll_def k_closed_form_def py_div_def linspace_time_grid)
qed

lemma make_system_yoyo_grid:
  assumes "0 < L c" and "0 < duration c"
  shows "\<exists>s. make_system_yoyo c = Inr s \<and> fst (sys_init s) = 0
            \<and> time_grid (duration c) (sys_ts s)"
  using assms
  by (simp add: make_system_yoyo_def k_closed_form_def py_div_def linspace_time_grid)

lemma pow4_strict_mono:
  fixes a b :: real
  assumes "0 \<le> a" and "a < b"
  shows "a ^ 4 < b ^ 4"
  using assms by (simp add: power_strict_mono)

lemma moment_of_inertia_strict_mono:
  assumes "0 < sys_rho_h sys" and "0 \<le> r1" and "r1 < r2"
  shows "moment_of_inertia r1 sys < moment_of_inertia r2 sys"
proof -
  have "r1 ^ 4 < r2 ^ 4" using assms(2,3) by (rule pow4_strict_mono)
  then have "r1 ^ 4 - (sys_Rmin sys) ^ 4 < r2 ^ 4 - (sys_Rmin sys) ^ 4" by simp
  moreover have "0 < pi * sys_rho_h sys / 2" using assms(1) by simp
  ultimately have
    "pi * sys_rho_h sys / 2 * (r1 ^ 4 - (sys_Rmin sys) ^ 4)
       < pi * sys_rho_h sys / 2 * (r2 ^ 4 - (sys_Rmin sys) ^ 4)"
    by (rule mult_strict_left_mono)
  then show ?thesis by (simp add: moment_of_inertia_def Let_def)
qed

lemma make_system_unroll_rho_h_pos:
  assumes "make_system_unroll c = Inr sys"
    and "0 < Mroll c" and "0 < Rmin c" and "Rmin c < Rmax c"
  shows "0 < sys_rho_h sys \<and> sys_Rmin sys = Rmin c \<and> sys_Rmax sys = Rmax c"
proof -
  have ar: "0 < area c" using assms(3,4) by (rule area_pos)
  from assms(1) ar have "sys_rho_h sys = Mroll c / area c"
    and "sys_Rmin sys = Rmin c" and "sys_Rmax sys = Rmax c"
    by (auto simp: make_system_unroll_def py_div_def split: sum.splits if_splits)
  with ar assms(2) show ?thesis by simp
qed






text \<open>
  Rounding to a double, for a positive number below \<open>2^52\<close>: scale by the power of two
  that brings it into \<open>[2^52, 2^53)\<close> and round there.
\<close>

lemma normalise_up:
  "0 < x \<Longrightarrow> 2 ^ 52 \<le> x * 2 ^ j \<Longrightarrow> x * 2 ^ j < 2 ^ 53 \<Longrightarrow> j \<le> n \<Longrightarrow>
     normalise n x e = (x * 2 ^ j, e - int j)"
proof (induction j arbitrary: n x e)
  case 0
  then show ?case by (cases n) simp_all
next
  case (Suc j)
  from Suc.prems(4) obtain n' where n: "n = Suc n'" and le: "j \<le> n'"
    by (cases n) simp_all
  have "2 * x * 1 \<le> 2 * x * 2 ^ j"
    using Suc.prems(1) by (intro mult_left_mono) simp_all
  with Suc.prems(3) have small: "x < 2 ^ 52" by simp
  have "normalise n' (2 * x) (e - 1) = (2 * x * 2 ^ j, e - 1 - int j)"
    using Suc.prems le by (intro Suc.IH) (simp_all add: mult_ac)
  with small n show ?case by (simp add: mult_ac)
qed

lemma fl64_up:
  assumes "0 < x" and "2 ^ 52 \<le> x * 2 ^ j" and "x * 2 ^ j < 2 ^ 53" and "j \<le> 2200"
  shows "fl64 x = of_int (round_half_even (x * 2 ^ j)) / 2 ^ j"
proof -
  have "normalise 2200 \<bar>x\<bar> 0 = (x * 2 ^ j, 0 - int j)"
    using assms by (simp add: normalise_up)
  with assms(1) show ?thesis
    by (simp add: fl64_def power_int_minus divide_inverse)
qed

text \<open>
  The doubles that the two computations of \<open>k\<close> pass through on the yo-yo Condition of
  the notebook, \<^verbatim>\<open>Rmin = 8e-3\<close>, \<^verbatim>\<open>Rmax = 16e-3\<close>, \<^verbatim>\<open>L = 1\<close>.
\<close>

lemma fl64_lit_Rmin: "fl64 (1 / 125) = 1152921504606847 / 144115188075855872"
  by (subst fl64_up [where j = 59]) (simp_all add: round_half_even_def Let_def)

lemma fl64_lit_Rmax: "fl64 (2 / 125) = 1152921504606847 / 72057594037927936"
  by (subst fl64_up [where j = 58]) (simp_all add: round_half_even_def Let_def)

lemma fl64_sum: "fl64 (3458764513820541 / 144115188075855872) = 3458764513820541 / 144115188075855872"
  by (subst fl64_up [where j = 58]) (simp_all add: round_half_even_def Let_def)

lemma fl64_ravg: "fl64 (3458764513820541 / 288230376151711744) = 3458764513820541 / 288230376151711744"
  by (subst fl64_up [where j = 59]) (simp_all add: round_half_even_def Let_def)

lemma fl64_two_pi: "fl64 (884279719003555 / 140737488355328) = 884279719003555 / 140737488355328"
  by (subst fl64_up [where j = 50]) (simp_all add: round_half_even_def Let_def)

lemma fl64_cavg: "fl64 (3058515312380695519754611023255 / 40564819207303340847894502572032) = 2716507296778921 / 36028797018963968"
  by (subst fl64_up [where j = 56]) (simp_all add: round_half_even_def Let_def)

lemma fl64_revs: "fl64 (36028797018963968 / 2716507296778921) = 116661807031711 / 8796093022208"
  by (subst fl64_up [where j = 49]) (simp_all add: round_half_even_def Let_def)

lemma fl64_rads: "fl64 (103161669940448359893206732605 / 1237940039285380274899124224) = 2932031007402667 / 35184372088832"
  by (subst fl64_up [where j = 46]) (simp_all add: round_half_even_def Let_def)

lemma fl64_diff: "fl64 (1152921504606847 / 144115188075855872) = 1152921504606847 / 144115188075855872"
  by (subst fl64_up [where j = 59]) (simp_all add: round_half_even_def Let_def)

lemma fl64_k_roll: "fl64 (1152921504606847 / 12009599006321324032) = 7083549724304467 / 73786976294838206464"
  by (subst fl64_up [where j = 66]) (simp_all add: round_half_even_def Let_def)

lemma fl64_sq_Rmax: "fl64 (1329227995784915928244039281409 / 5192296858534827628530496329220096) = 4722366482869645 / 18446744073709551616"
  by (subst fl64_up [where j = 64]) (simp_all add: round_half_even_def Let_def)

lemma fl64_sq_Rmin: "fl64 (1329227995784915928244039281409 / 20769187434139310514121985316880384) = 4722366482869645 / 73786976294838206464"
  by (subst fl64_up [where j = 66]) (simp_all add: round_half_even_def Let_def)

lemma fl64_sq_diff: "fl64 (14167099448608935 / 73786976294838206464) = 1770887431076117 / 9223372036854775808"
  by (subst fl64_up [where j = 65]) (simp_all add: round_half_even_def Let_def)

lemma fl64_half: "fl64 (1770887431076117 / 18446744073709551616) = 1770887431076117 / 18446744073709551616"
  by (subst fl64_up [where j = 66]) (simp_all add: round_half_even_def Let_def)

lemma estimate_k_in_exact: "estimate_k_in (\<lambda>x. x) pi c = estimate_k c"
  by (simp add: estimate_k_in_def estimate_k_def rads_def revs_def py_div_def Cavg_def
      Ravg_def Let_def)

lemma k_closed_form_in_exact: "k_closed_form_in (\<lambda>x. x) c = k_closed_form c"
  by (simp add: k_closed_form_in_def k_closed_form_def py_div_def Let_def power2_eq_square)

lemmas fl64_steps = fl64_lit_Rmin fl64_lit_Rmax fl64_sum fl64_ravg fl64_two_pi fl64_cavg
  fl64_revs fl64_rads fl64_diff fl64_k_roll fl64_sq_Rmax fl64_sq_Rmin fl64_sq_diff fl64_half

subsection \<open>Rolling paper: the parameter \<open>k\<close>\<close>

text \<open>
  Claim C1. For a Condition with positive \<open>Rmin\<close>, \<open>Rmax > Rmin\<close> and \<open>L > 0\<close>,
  \<open>estimate_k\<close> returns \<open>(Rmax - Rmin) / total_rotation\<close>, where the total rotation is
  \<open>2 * pi * revs\<close>, \<open>revs = L / (2 * pi * Ravg)\<close> and \<open>Ravg = (Rmax + Rmin) / 2\<close>.
\<close>

theorem estimate_k_formula:
  assumes "0 < Rmin c" and "Rmin c < Rmax c" and "0 < L c"
  shows "estimate_k c =
           Inr ((Rmax c - Rmin c) / (2 * pi * (L c / (2 * pi * ((Rmax c + Rmin c) / 2)))))"
proof -
  have rav: "0 < Ravg c" using assms by (simp add: Ravg_def)
  then have cav: "Cavg c \<noteq> 0" by (simp add: Cavg_def)
  have rd: "rads c = Inr (2 * pi * (L c / (2 * pi * Ravg c)))"
    using cav by (rule rads_value)
  have "2 * pi * (L c / (2 * pi * Ravg c)) \<noteq> 0"
    using rav assms(3) by simp
  then show ?thesis
    by (simp add: estimate_k_def rd py_div_def Ravg_def)
qed

theorem estimate_k_formula_witness:
  "estimate_k \<lparr>Rmin = 1, Rmax = 3, L = 2, duration = 1\<rparr> =
     Inr ((3 - 1) / (2 * pi * (2 / (2 * pi * ((3 + 1) / 2)))))"
  using estimate_k_formula [of "\<lparr>Rmin = 1, Rmax = 3, L = 2, duration = 1\<rparr>"] by simp

text \<open>
  Claim C2, as stated, says that with \<open>Rmax = Rmin\<close> (and positive \<open>Rmin\<close> and \<open>L\<close>) the
  divisor \<open>rads\<close>, the total rotation, is 0 and \<open>estimate_k\<close> divides by zero. It does
  not: with \<open>Rmin = Rmax = L = 1\<close> the total rotation is 1 and \<open>estimate_k\<close> returns 0.
\<close>

theorem total_rotation_zero_counterexample:
  "rads \<lparr>Rmin = 1, Rmax = 1, L = 1, duration = 1\<rparr> = Inr 1 \<and>
   rads \<lparr>Rmin = 1, Rmax = 1, L = 1, duration = 1\<rparr> \<noteq> Inr 0 \<and>
   estimate_k \<lparr>Rmin = 1, Rmax = 1, L = 1, duration = 1\<rparr> = Inr 0"
  by (simp add: estimate_k_def rads_def revs_def py_div_def Cavg_def Ravg_def)

text \<open>
  Claim C2, amended. For a Condition with \<open>Rmax = Rmin\<close>, positive \<open>Rmin\<close> and positive
  \<open>L\<close>, the total rotation computed inside \<open>estimate_k\<close> is \<open>L / Rmin\<close>, which is
  positive, so nothing is divided by zero and \<open>estimate_k\<close> returns \<open>k = 0\<close>.
\<close>

theorem estimate_k_equal_radii:
  assumes "Rmax c = Rmin c" and "0 < Rmin c" and "0 < L c"
  shows "rads c = Inr (L c / Rmin c) \<and> 0 < L c / Rmin c \<and> estimate_k c = Inr 0"
proof -
  have rav: "Ravg c = Rmin c" using assms(1) by (simp add: Ravg_def)
  have cav: "Cavg c \<noteq> 0" using assms(2) by (simp add: Cavg_def rav)
  have rd: "rads c = Inr (L c / Rmin c)"
    using assms(2) by (simp add: rads_value [OF cav] rav)
  have pos: "0 < L c / Rmin c" using assms by simp
  have "estimate_k c = Inr 0"
    using assms by (simp add: estimate_k_def rd py_div_def)
  with rd pos show ?thesis by simp
qed

theorem estimate_k_equal_radii_witness:
  "rads \<lparr>Rmin = 2, Rmax = 2, L = 6, duration = 1\<rparr> = Inr (6 / 2) \<and>
   (0::real) < 6 / 2 \<and>
   estimate_k \<lparr>Rmin = 2, Rmax = 2, L = 6, duration = 1\<rparr> = Inr 0"
  using estimate_k_equal_radii [of "\<lparr>Rmin = 2, Rmax = 2, L = 6, duration = 1\<rparr>"] by simp

subsection \<open>Rolling paper: no validation in \<open>make_system\<close>\<close>

text \<open>
  Claim C3, as stated, says that the Roll \<open>make_system\<close> fails with an
  invalid-configuration error on a Condition with \<open>Rmax < Rmin\<close>, with a non-positive
  duration, or with \<open>Rmax = Rmin\<close>. On one Condition of each kind it returns a System:
  with a negative \<open>k\<close>, with a time grid that runs backwards, with \<open>k = 0\<close>.
\<close>

theorem make_system_roll_counterexample:
  "make_system_roll \<lparr>Rmin = 2, Rmax = 1, L = 1, duration = 1\<rparr> =
     Inr \<lparr>sys_init = (0, 0, 2), sys_k = - (3 / 2), sys_ts = linspace 0 1 101\<rparr> \<and>
   make_system_roll \<lparr>Rmin = 1, Rmax = 2, L = 1, duration = - 1\<rparr> =
     Inr \<lparr>sys_init = (0, 0, 1), sys_k = 3 / 2, sys_ts = linspace 0 (- 1) 101\<rparr> \<and>
   make_system_roll \<lparr>Rmin = 1, Rmax = 1, L = 1, duration = 1\<rparr> =
     Inr \<lparr>sys_init = (0, 0, 1), sys_k = 0, sys_ts = linspace 0 1 101\<rparr>"
  by (simp add: make_system_roll_def estimate_k_def rads_def revs_def py_div_def
      Cavg_def Ravg_def)

text \<open>
  Claim C3, amended. The Roll \<open>make_system\<close> checks none of the geometric invariants. It
  fails only where \<open>estimate_k\<close> divides by zero, that is when \<open>Rmax + Rmin = 0\<close> or
  \<open>L = 0\<close>, and then with that division's error. On every other Condition, whatever the
  order of the radii and the sign of the duration, it returns the System with the initial
  state \<open>(0, 0, Rmin)\<close>, the \<open>k\<close> of \<open>estimate_k\<close> and the grid from 0 to \<open>duration\<close>.
\<close>

theorem make_system_roll_no_validation:
  "make_system_roll c =
     (if Rmax c + Rmin c = 0 \<or> L c = 0 then Inl ZeroDivisionError
      else Inr \<lparr>sys_init = (0, 0, Rmin c),
                sys_k = (Rmax c - Rmin c) / (2 * pi * (L c / (2 * pi * ((Rmax c + Rmin c) / 2)))),
                sys_ts = linspace 0 (duration c) 101\<rparr>)"
  by (simp add: make_system_roll_def estimate_k_total)

theorem make_system_roll_no_validation_witness:
  "make_system_roll \<lparr>Rmin = 3, Rmax = 1, L = 2, duration = 0\<rparr> =
     Inr \<lparr>sys_init = (0, 0, 3),
          sys_k = (1 - 3) / (2 * pi * (2 / (2 * pi * ((1 + 3) / 2)))),
          sys_ts = linspace 0 0 101\<rparr>"
  using make_system_roll_no_validation [of "\<lparr>Rmin = 3, Rmax = 1, L = 2, duration = 0\<rparr>"]
  by simp

subsection \<open>The slope functions\<close>



text \<open>
  Claim C5. For every Roll state \<open>(theta, y, r)\<close>, every time \<open>t\<close> and every Roll System
  with constant \<open>k\<close>, the Roll slope function returns \<open>(omega, r * omega, k * omega)\<close> with
  \<open>omega = 10\<close>; the derivative of \<open>theta\<close> is 10 whatever the state and the time.
\<close>

theorem slope_func_roll_formula:
  "slope_func_roll (theta, y, r) t sys = (10, r * 10, sys_k sys * 10)
   \<and> fst (slope_func_roll state t sys) = 10"
  by (cases state) (simp add: slope_func_roll_def)

text \<open>
  Claim C6. For every Unroll state \<open>(theta, omega, y)\<close> with \<open>2 * k * y + Rmin^2 \<ge> 0\<close>,
  every time and every Unroll System, the Unroll slope function returns
  \<open>(omega, alpha, - r * omega)\<close>, in the order of the state, where
  \<open>r = sqrt (2 * k * y + Rmin^2)\<close>, \<open>I = Mcore * Rmin^2 + (pi * rho_h / 2) * (r^4 - Rmin^4)\<close>
  is the value of \<open>moment_of_inertia\<close>, \<open>tau = r * tension\<close> and \<open>alpha = tau / I\<close>. Where
  \<open>I = 0\<close> the quotient \<open>tau / I\<close> is no finite number.
\<close>

theorem slope_func_unroll_formula:
  assumes "0 \<le> 2 * sys_k sys * y + (sys_Rmin sys)\<^sup>2"
  shows "slope_func_unroll (theta, omega, y) t sys tens =
           (let r = sqrt (2 * sys_k sys * y + (sys_Rmin sys)\<^sup>2);
                I = sys_Mcore sys * (sys_Rmin sys)\<^sup>2
                      + (pi * sys_rho_h sys / 2) * (r ^ 4 - (sys_Rmin sys) ^ 4);
                tau = r * tens
            in if I = 0 then Inl NonFinite else Inr (omega, tau / I, - r * omega))
         \<and> moment_of_inertia (sqrt (2 * sys_k sys * y + (sys_Rmin sys)\<^sup>2)) sys =
             sys_Mcore sys * (sys_Rmin sys)\<^sup>2
               + (pi * sys_rho_h sys / 2)
                 * ((sqrt (2 * sys_k sys * y + (sys_Rmin sys)\<^sup>2)) ^ 4 - (sys_Rmin sys) ^ 4)"
  using assms by (simp add: slope_func_unroll_def moment_of_inertia_def Let_def)

theorem slope_func_unroll_formula_witness:
  "slope_func_unroll (0, 3, 4) 0
     \<lparr>sys_init = (0::real, 0::real, 4::real), sys_k = 1, sys_ts = [], sys_rho_h = 2,
      sys_Rmin = 1, sys_Rmax = 3, sys_Mcore = 5, sys_Mroll = 7\<rparr> 11
   = Inr (3, 3 * 11 / (5 + pi * 80), - 3 * 3)"
proof -
  have root: "sqrt (9::real) = 3" using real_sqrt_abs [of 3] by simp
  have "0 < 5 + pi * 80" by (intro add_pos_pos mult_pos_pos) simp_all
  then have inertia: "5 + pi * 80 \<noteq> 0" by simp
  show ?thesis
    using slope_func_unroll_formula [where
      sys = "\<lparr>sys_init = (0::real, 0::real, 4::real), sys_k = 1, sys_ts = [], sys_rho_h = 2,
              sys_Rmin = 1, sys_Rmax = 3, sys_Mcore = 5, sys_Mroll = 7\<rparr>"
      and y = 4 and theta = 0 and omega = 3 and t = 0 and tens = 11]
    by (simp add: Let_def root inertia)
qed

subsection \<open>Unrolling paper: the derived constants\<close>

text \<open>
  Claim C7. For every Unroll Condition (its radii positive) with \<open>Rmax > Rmin\<close> and
  \<open>L > 0\<close>, the Unroll \<open>make_system\<close> derives \<open>k = (Rmax^2 - Rmin^2) / (2 * L)\<close> and the
  areal density \<open>rho_h = Mroll / (pi * (Rmax^2 - Rmin^2))\<close>.
\<close>

theorem make_system_unroll_constants:
  assumes "0 < Rmin c" and "Rmin c < Rmax c" and "0 < L c"
  shows "make_system_unroll c =
           Inr \<lparr>sys_init = (0, 0, L c),
                sys_k = ((Rmax c)\<^sup>2 - (Rmin c)\<^sup>2) / (2 * L c),
                sys_ts = linspace 0 (duration c) 101,
                sys_rho_h = Mroll c / (pi * ((Rmax c)\<^sup>2 - (Rmin c)\<^sup>2)),
                sys_Rmin = Rmin c, sys_Rmax = Rmax c,
                sys_Mcore = Mcore c, sys_Mroll = Mroll c\<rparr>"
proof -
  have "area c \<noteq> 0" using area_pos [OF assms(1,2)] by simp
  then show ?thesis
    using assms(3) by (simp add: make_system_unroll_def k_closed_form_def py_div_def area_def)
qed

theorem make_system_unroll_constants_witness:
  "make_system_unroll
     \<lparr>Rmin = 1, Rmax = 2, L = 3, duration = 5, Mcore = 1, Mroll = 6, tension = 1\<rparr> =
     Inr \<lparr>sys_init = (0, 0, 3),
          sys_k = (2\<^sup>2 - 1\<^sup>2) / (2 * 3),
          sys_ts = linspace 0 5 101,
          sys_rho_h = 6 / (pi * (2\<^sup>2 - 1\<^sup>2)),
          sys_Rmin = 1, sys_Rmax = 2, sys_Mcore = 1, sys_Mroll = 6\<rparr>"
  using make_system_unroll_constants
    [of "\<lparr>Rmin = 1, Rmax = 2, L = 3, duration = 5, Mcore = 1, Mroll = 6, tension = 1\<rparr>"]
  by simp

subsection \<open>Initial state and time grid\<close>

text \<open>
  Claim C8. For every valid Condition of each of the three scenarios (positive radii,
  \<open>Rmax > Rmin\<close>, \<open>L > 0\<close>, \<open>duration > 0\<close>), \<open>make_system\<close> returns a System whose initial
  state has \<open>theta = 0\<close> and whose time grid has exactly 101 evenly spaced points, the
  first 0 and the last \<open>duration\<close>, in non-decreasing order.
\<close>

theorem make_system_init_and_grid:
  assumes "0 < Rmin cr \<and> Rmin cr < Rmax cr \<and> 0 < L cr \<and> 0 < duration cr"
    and "0 < Rmin cu \<and> Rmin cu < Rmax cu \<and> 0 < L cu \<and> 0 < duration cu"
    and "0 < Rmin cy \<and> Rmin cy < Rmax cy \<and> 0 < L cy \<and> 0 < duration cy"
  shows "(\<exists>s. make_system_roll cr = Inr s \<and> fst (sys_init s) = 0
              \<and> time_grid (duration cr) (sys_ts s))
       \<and> (\<exists>s. make_system_unroll cu = Inr s \<and> fst (sys_init s) = 0
              \<and> time_grid (duration cu) (sys_ts s))
       \<and> (\<exists>s. make_system_yoyo cy = Inr s \<and> fst (sys_init s) = 0
              \<and> time_grid (duration cy) (sys_ts s))"
  using assms
  by (simp add: make_system_roll_grid make_system_unroll_grid make_system_yoyo_grid)

theorem make_system_init_and_grid_witness:
  "(\<exists>s. make_system_roll \<lparr>Rmin = 1, Rmax = 2, L = 3, duration = 5\<rparr> = Inr s
        \<and> fst (sys_init s) = 0 \<and> time_grid 5 (sys_ts s))
   \<and> (\<exists>s. make_system_unroll
             \<lparr>Rmin = 1, Rmax = 2, L = 3, duration = 5, Mcore = 1, Mroll = 6, tension = 1\<rparr>
           = Inr s
        \<and> fst (sys_init s) = 0 \<and> time_grid 5 (sys_ts s))
   \<and> (\<exists>s. make_system_yoyo
             \<lparr>Rmin = 1, Rmax = 2, L = 3, duration = 5, Rout = 4, mass = 1, g = 10\<rparr>
           = Inr s
        \<and> fst (sys_init s) = 0 \<and> time_grid 5 (sys_ts s))"
  using make_system_init_and_grid
    [of "\<lparr>Rmin = 1, Rmax = 2, L = 3, duration = 5\<rparr>"
        "\<lparr>Rmin = 1, Rmax = 2, L = 3, duration = 5, Mcore = 1, Mroll = 6, tension = 1\<rparr>"
        "\<lparr>Rmin = 1, Rmax = 2, L = 3, duration = 5, Rout = 4, mass = 1, g = 10\<rparr>"]
  by simp

subsection \<open>Moment of inertia\<close>

text \<open>
  Claim C9. For every Unroll System that \<open>make_system\<close> derives from a valid Condition
  (\<open>Mroll > 0\<close>, \<open>Rmax > Rmin > 0\<close>, hence \<open>rho_h > 0\<close>), the moment of inertia at \<open>Rmin\<close> is
  less than at \<open>Rmax\<close>, and \<open>moment_of_inertia\<close> increases with \<open>r\<close> on \<open>[Rmin, Rmax]\<close>,
  strictly.
\<close>

theorem moment_of_inertia_increasing:
  assumes "make_system_unroll c = Inr sys"
    and "0 < Mroll c" and "0 < Rmin c" and "Rmin c < Rmax c"
  shows "moment_of_inertia (sys_Rmin sys) sys < moment_of_inertia (sys_Rmax sys) sys
       \<and> (\<forall>r1 r2. sys_Rmin sys \<le> r1 \<and> r1 < r2 \<and> r2 \<le> sys_Rmax sys \<longrightarrow>
             moment_of_inertia r1 sys < moment_of_inertia r2 sys)
       \<and> (\<forall>r1 r2. sys_Rmin sys \<le> r1 \<and> r1 \<le> r2 \<and> r2 \<le> sys_Rmax sys \<longrightarrow>
             moment_of_inertia r1 sys \<le> moment_of_inertia r2 sys)"
proof -
  from make_system_unroll_rho_h_pos [OF assms]
  have rho: "0 < sys_rho_h sys" and mn: "sys_Rmin sys = Rmin c" and mx: "sys_Rmax sys = Rmax c"
    by simp_all
  have strict: "moment_of_inertia r1 sys < moment_of_inertia r2 sys"
    if "sys_Rmin sys \<le> r1" and "r1 < r2" for r1 r2
  proof -
    have "0 \<le> r1" using that(1) assms(3) mn by simp
    with rho show ?thesis using that(2) by (simp add: moment_of_inertia_strict_mono)
  qed
  have ends: "moment_of_inertia (sys_Rmin sys) sys < moment_of_inertia (sys_Rmax sys) sys"
    using strict [of "sys_Rmin sys" "sys_Rmax sys"] assms(4) mn mx by simp
  have weak: "moment_of_inertia r1 sys \<le> moment_of_inertia r2 sys"
    if "sys_Rmin sys \<le> r1" and "r1 \<le> r2" for r1 r2
  proof (cases "r1 = r2")
    case True
    then show ?thesis by simp
  next
    case False
    with that(2) have "r1 < r2" by simp
    with strict [OF that(1)] show ?thesis by (simp add: less_imp_le)
  qed
  from ends strict weak show ?thesis by blast
qed

theorem moment_of_inertia_increasing_witness:
  "moment_of_inertia 1
     \<lparr>sys_init = (0::real, 0::real, 3::real), sys_k = 1 / 2, sys_ts = linspace 0 5 101,
      sys_rho_h = 2 / pi, sys_Rmin = 1, sys_Rmax = 2, sys_Mcore = 1, sys_Mroll = 6\<rparr>
   < moment_of_inertia 2
     \<lparr>sys_init = (0::real, 0::real, 3::real), sys_k = 1 / 2, sys_ts = linspace 0 5 101,
      sys_rho_h = 2 / pi, sys_Rmin = 1, sys_Rmax = 2, sys_Mcore = 1, sys_Mroll = 6\<rparr>"
proof -
  have built: "make_system_unroll
      \<lparr>Rmin = 1, Rmax = 2, L = 3, duration = 5, Mcore = 1, Mroll = 6, tension = 1\<rparr> =
     Inr \<lparr>sys_init = (0, 0, 3), sys_k = 1 / 2, sys_ts = linspace 0 5 101,
          sys_rho_h = 2 / pi, sys_Rmin = 1, sys_Rmax = 2, sys_Mcore = 1, sys_Mroll = 6\<rparr>"
    by (simp add: make_system_unroll_def k_closed_form_def py_div_def area_def)
  show ?thesis
    using moment_of_inertia_increasing [OF built] by simp
qed

subsection \<open>The two derivations of \<open>k\<close>\<close>

text \<open>
  Claim C10, as stated, says that \<open>estimate_k\<close> returns exactly the same value as the
  closed form \<open>(Rmax^2 - Rmin^2) / (2 * L)\<close> of the Unroll and yo-yo \<open>make_system\<close>. In
  the doubles that Python computes with it does not. On the notebook's own yo-yo
  Condition, \<^verbatim>\<open>Rmin = 8e-3\<close>, \<^verbatim>\<open>Rmax = 16e-3\<close>, \<^verbatim>\<open>L = 1\<close>, \<open>estimate_k\<close> returns
  \<^verbatim>\<open>9.599999999999999e-05\<close> and the closed form \<^verbatim>\<open>9.6e-05\<close>, one unit in the last place
  apart.
\<close>

theorem k_f64_counterexample:
  "estimate_k_in fl64 pi64 \<lparr>Rmin = fl64 (8 / 1000), Rmax = fl64 (16 / 1000), L = 1, duration = 1\<rparr>
     = Inr (7083549724304467 / 2 ^ 66)
   \<and> k_closed_form_in fl64 \<lparr>Rmin = fl64 (8 / 1000), Rmax = fl64 (16 / 1000), L = 1, duration = 1\<rparr>
     = Inr (7083549724304468 / 2 ^ 66)
   \<and> estimate_k_in fl64 pi64 \<lparr>Rmin = fl64 (8 / 1000), Rmax = fl64 (16 / 1000), L = 1, duration = 1\<rparr>
     \<noteq> k_closed_form_in fl64 \<lparr>Rmin = fl64 (8 / 1000), Rmax = fl64 (16 / 1000), L = 1, duration = 1\<rparr>"
  by (simp add: estimate_k_in_def k_closed_form_in_def pi64_def Let_def fl64_steps)

text \<open>
  Claim C10, amended. For every Condition with \<open>Rmin > 0\<close>, \<open>Rmax \<ge> Rmin\<close> and \<open>L > 0\<close>, the
  two derivations of \<open>k\<close> coincide in exact arithmetic: the quotient of \<open>Rmax - Rmin\<close> by
  \<open>2 * pi * L / (2 * pi * Ravg)\<close> that \<open>estimate_k\<close> computes is
  \<open>(Rmax - Rmin) * (Rmax + Rmin) / (2 * L)\<close>, which is the closed form
  \<open>(Rmax^2 - Rmin^2) / (2 * L)\<close>. The yo-yo \<open>make_system\<close> returns a System with that \<open>k\<close>
  from every Condition with the same \<open>Rmin\<close>, \<open>Rmax\<close> and \<open>L\<close>, and so does the Unroll
  \<open>make_system\<close> when \<open>Rmax > Rmin\<close>; when \<open>Rmax = Rmin\<close> it divides by zero. In double
  precision the two code paths round differently and agree only up to rounding.
\<close>

theorem estimate_k_is_closed_form:
  assumes "0 < Rmin c" and "Rmin c \<le> Rmax c" and "0 < L c"
  shows "estimate_k c = Inr (((Rmax c)\<^sup>2 - (Rmin c)\<^sup>2) / (2 * L c))
       \<and> (Rmax c - Rmin c) / (2 * pi * (L c / (2 * pi * ((Rmax c + Rmin c) / 2))))
           = (Rmax c - Rmin c) * (Rmax c + Rmin c) / (2 * L c)
       \<and> estimate_k c = k_closed_form c
       \<and> (\<forall>cy::yoyo_condition. Rmin cy = Rmin c \<and> Rmax cy = Rmax c \<and> L cy = L c \<longrightarrow>
             (\<exists>sy. make_system_yoyo cy = Inr sy \<and> estimate_k c = Inr (sys_k sy)))
       \<and> (\<forall>cu::unroll_condition. Rmin cu = Rmin c \<and> Rmax cu = Rmax c \<and> L cu = L c \<longrightarrow>
             (if Rmax c = Rmin c then make_system_unroll cu = Inl ZeroDivisionError
              else \<exists>su. make_system_unroll cu = Inr su \<and> estimate_k c = Inr (sys_k su)))"
proof -
  have sum_pos: "0 < Rmax c + Rmin c" using assms(1,2) by simp
  have closed: "k_closed_form c = Inr (((Rmax c)\<^sup>2 - (Rmin c)\<^sup>2) / (2 * L c))"
    using assms(3) by (simp add: k_closed_form_value)
  have alg: "(Rmax c - Rmin c) / (2 * pi * (L c / (2 * pi * ((Rmax c + Rmin c) / 2))))
           = (Rmax c - Rmin c) * (Rmax c + Rmin c) / (2 * L c)"
    using sum_pos assms(3) by (simp add: field_simps)
  have sq: "(Rmax c - Rmin c) * (Rmax c + Rmin c) = (Rmax c)\<^sup>2 - (Rmin c)\<^sup>2"
    by (simp add: power2_eq_square algebra_simps)
  have "estimate_k c =
          Inr ((Rmax c - Rmin c) / (2 * pi * (L c / (2 * pi * ((Rmax c + Rmin c) / 2)))))"
    using sum_pos assms(3) by (simp add: estimate_k_total)
  then have same: "estimate_k c = k_closed_form c"
    by (simp only: alg sq closed)
  have yoyo: "\<exists>sy. make_system_yoyo cy = Inr sy \<and> estimate_k c = Inr (sys_k sy)"
    if "Rmin cy = Rmin c" and "Rmax cy = Rmax c" and "L cy = L c" for cy :: yoyo_condition
  proof -
    have "k_closed_form cy = k_closed_form c"
      using that by (rule k_closed_form_same_geometry)
    with same closed show ?thesis
      by (simp add: make_system_yoyo_def Let_def)
  qed
  have unroll_fails: "make_system_unroll cu = Inl ZeroDivisionError"
    if "Rmax cu = Rmax c" and "Rmin cu = Rmin c" and "Rmax c = Rmin c"
    for cu :: unroll_condition
    using that by (simp add: make_system_unroll_def py_div_def area_def)
  have unroll: "\<exists>su. make_system_unroll cu = Inr su \<and> estimate_k c = Inr (sys_k su)"
    if "Rmin cu = Rmin c" and "Rmax cu = Rmax c" and "L cu = L c" and "Rmax c \<noteq> Rmin c"
    for cu :: unroll_condition
  proof -
    have "k_closed_form cu = k_closed_form c"
      using that(1-3) by (rule k_closed_form_same_geometry)
    moreover have "area cu \<noteq> 0"
      using area_pos [of cu] that assms(1,2) by simp
    ultimately show ?thesis
      using same closed by (simp add: make_system_unroll_def py_div_def)
  qed
  from same closed alg yoyo unroll unroll_fails show ?thesis by auto
qed

theorem estimate_k_is_closed_form_witness:
  "estimate_k \<lparr>Rmin = 1, Rmax = 3, L = 2, duration = 1\<rparr> = Inr ((3\<^sup>2 - 1\<^sup>2) / (2 * 2))
   \<and> estimate_k \<lparr>Rmin = 1, Rmax = 3, L = 2, duration = 1\<rparr>
     = k_closed_form \<lparr>Rmin = 1, Rmax = 3, L = 2, duration = 1\<rparr>
   \<and> (\<exists>sy. make_system_yoyo
               \<lparr>Rmin = 1, Rmax = 3, L = 2, duration = 1, Rout = 4, mass = 1, g = 10\<rparr> = Inr sy
          \<and> estimate_k \<lparr>Rmin = 1, Rmax = 3, L = 2, duration = 1\<rparr> = Inr (sys_k sy))
   \<and> (\<exists>su. make_system_unroll
               \<lparr>Rmin = 1, Rmax = 3, L = 2, duration = 1, Mcore = 1, Mroll = 6, tension = 1\<rparr>
             = Inr su
          \<and> estimate_k \<lparr>Rmin = 1, Rmax = 3, L = 2, duration = 1\<rparr> = Inr (sys_k su))"
proof -
  let ?c = "\<lparr>Rmin = 1, Rmax = 3, L = 2, duration = 1\<rparr>"
  let ?cy = "\<lparr>Rmin = 1, Rmax = 3, L = 2, duration = 1, Rout = 4, mass = 1, g = 10\<rparr>"
  let ?cu = "\<lparr>Rmin = 1, Rmax = 3, L = 2, duration = 1, Mcore = 1, Mroll = 6, tension = 1\<rparr>"
  have "0 < Rmin ?c" and "Rmin ?c \<le> Rmax ?c" and "0 < L ?c" by simp_all
  note all = estimate_k_is_closed_form [OF this]
  from all have k: "estimate_k ?c = Inr ((3\<^sup>2 - 1\<^sup>2) / (2 * 2))" by simp
  from all have same: "estimate_k ?c = k_closed_form ?c" by blast
  from all have
    "Rmin ?cy = Rmin ?c \<and> Rmax ?cy = Rmax ?c \<and> L ?cy = L ?c \<longrightarrow>
       (\<exists>sy. make_system_yoyo ?cy = Inr sy \<and> estimate_k ?c = Inr (sys_k sy))"
    by blast
  then have yoyo: "\<exists>sy. make_system_yoyo ?cy = Inr sy \<and> estimate_k ?c = Inr (sys_k sy)"
    by simp
  from all have
    "Rmin ?cu = Rmin ?c \<and> Rmax ?cu = Rmax ?c \<and> L ?cu = L ?c \<longrightarrow>
       (if Rmax ?c = Rmin ?c then make_system_unroll ?cu = Inl ZeroDivisionError
        else \<exists>su. make_system_unroll ?cu = Inr su \<and> estimate_k ?c = Inr (sys_k su))"
    by blast
  then have unroll: "\<exists>su. make_system_unroll ?cu = Inr su \<and> estimate_k ?c = Inr (sys_k su)"
    by simp
  from k same yoyo unroll show ?thesis by blast
qed

end
